theory Spec2Isabelle
  imports Main
begin

section \<open>The WebXR light estimation feature\<close>

text \<open>
  A shallow embedding of the class \<open>WebXRLightEstimation\<close>. The instance is a record of
  its fields; every method takes the instance and returns the instance it leaves behind,
  together with the value it returns. The objects of the browser that the class talks to
  (the XR session, the rendering canvas, the light probe as an event target) are the
  record \<open>WebXRSessionManager\<close>, which also keeps a log of every call the class makes on
  them, the way a spy in a test would.
\<close>

subsection \<open>Host objects\<close>

text \<open>Opaque handles of the browser, told apart by a number.\<close>

datatype XRLightProbe = XRLightProbe nat
datatype XRLightEstimate = XRLightEstimate nat
datatype WebGLTexture = WebGLTexture nat
datatype GLContext = GLContext nat
datatype XRWebGLBinding = XRWebGLBinding GLContext

text \<open>
  The canvas answers \<open>getContext("webgl2")\<close> and \<open>getContext("webgl")\<close> with a context
  or with \<open>null\<close>.
\<close>

datatype HTMLCanvasElement =
  HTMLCanvasElement (webgl2: "GLContext option") (webgl: "GLContext option")

text \<open>A frame is what \<open>getLightEstimate\<close> answers on it for each probe (\<open>null\<close> is \<open>None\<close>).\<close>

type_synonym XRFrame = "XRLightProbe \<Rightarrow> XRLightEstimate option"

datatype error = TypeError

record WebXRSessionManager =
  preferredReflectionFormat :: "string option"
    \<comment> \<open>\<open>session.preferredReflectionFormat\<close>; \<open>undefined\<close> and \<open>null\<close> are \<open>None\<close>\<close>
  probeRequests :: "string list"
    \<comment> \<open>the \<open>reflectionFormat\<close> of every \<open>session.requestLightProbe\<close> call, in call order\<close>
  unresolved :: nat
    \<comment> \<open>the promises of \<open>requestLightProbe\<close> that are neither resolved nor rejected yet\<close>
  renderingCanvas :: "HTMLCanvasElement option"
    \<comment> \<open>\<open>scene.getEngine().getRenderingCanvas()\<close>\<close>
  bindingsCreated :: nat
    \<comment> \<open>how many times \<open>new XRWebGLBinding\<close> has run\<close>
  cubeMapOf :: "XRLightProbe \<Rightarrow> WebGLTexture option"
    \<comment> \<open>what \<open>XRWebGLBinding.getReflectionCubeMap\<close> answers for a probe\<close>
  cubeMapCalls :: nat
    \<comment> \<open>how many times \<open>getReflectionCubeMap\<close> has run\<close>
  listeners :: "XRLightProbe set"
    \<comment> \<open>the probes on which \<open>_updateReflectionCubeMap\<close> listens for \<open>'reflectionchange'\<close>\<close>
  addCalls :: "XRLightProbe list"
    \<comment> \<open>every \<open>addEventListener('reflectionchange', ...)\<close> call, by target\<close>
  removeCalls :: "XRLightProbe list"
    \<comment> \<open>every \<open>removeEventListener('reflectionchange', ...)\<close> call, by target\<close>
  lightEstimateCalls :: nat
    \<comment> \<open>how many times \<open>XRFrame.getLightEstimate\<close> has run\<close>
  warnings :: "string list"
    \<comment> \<open>what \<open>Tools.Warn\<close> has printed\<close>

definition requestLightProbe :: "string \<Rightarrow> WebXRSessionManager \<Rightarrow> WebXRSessionManager" where
  "requestLightProbe reflectionFormat m =
     m\<lparr>probeRequests := probeRequests m @ [reflectionFormat],
       unresolved := Suc (unresolved m)\<rparr>"

definition getReflectionCubeMap ::
  "XRLightProbe \<Rightarrow> WebXRSessionManager \<Rightarrow> WebGLTexture option \<times> WebXRSessionManager" where
  "getReflectionCubeMap p m = (cubeMapOf m p, m\<lparr>cubeMapCalls := Suc (cubeMapCalls m)\<rparr>)"

text \<open>
  An event target keeps one listener for each pair of event type and callback: adding
  the same callback again changes nothing, removing an absent one changes nothing.
\<close>

definition addEventListener :: "XRLightProbe \<Rightarrow> WebXRSessionManager \<Rightarrow> WebXRSessionManager" where
  "addEventListener p m = m\<lparr>listeners := insert p (listeners m), addCalls := addCalls m @ [p]\<rparr>"

definition removeEventListener :: "XRLightProbe \<Rightarrow> WebXRSessionManager \<Rightarrow> WebXRSessionManager" where
  "removeEventListener p m =
     m\<lparr>listeners := listeners m - {p}, removeCalls := removeCalls m @ [p]\<rparr>"

subsection \<open>The instance\<close>

record IWebXRLightEstimationOptions =
  reflectionFormatSRGBA8 :: "bool option"
    \<comment> \<open>an optional property: \<open>None\<close> when the caller left it out\<close>

record WebXRLightEstimation =
  xrLightProbe :: "XRLightProbe option"
  xrLightEstimate :: "XRLightEstimate option"
  xrWebGLBinding :: "XRWebGLBinding option"
  reflectionCubeMap :: "WebGLTexture option"
  options :: IWebXRLightEstimationOptions
  xrNativeFeatureName :: string
  attached :: bool
  isDisposed :: bool
  xrSessionManager :: WebXRSessionManager

definition constructor ::
  "WebXRSessionManager \<Rightarrow> IWebXRLightEstimationOptions \<Rightarrow> WebXRLightEstimation" where
  "constructor m opts =
     \<lparr>xrLightProbe = None, xrLightEstimate = None, xrWebGLBinding = None,
      reflectionCubeMap = None, options = opts,
      xrNativeFeatureName = ''light-estimation'', attached = False,
      isDisposed = False,
      xrSessionManager =
        m\<lparr>warnings := warnings m @
             [''light-estimation is an experimental and unstable feature.'']\<rparr>\<rparr>"

text \<open>
  Modelled from the spec: the base class \<open>WebXRAbstractFeature\<close> (its \<open>attach\<close> and
  \<open>dispose\<close>, and the fields they keep) is not among the source files. The spec gives
  \<open>attach\<close> the precondition "must not already be attached", names the failures "already
  attached, or base attach rejects", and says of an instance after \<open>dispose\<close> that it is
  in "an unusable terminal state (feature instances are not re-attachable after
  dispose)". So the base \<open>attach\<close> refuses a disposed instance and an attached one, and
  changes nothing when it refuses; the base \<open>dispose\<close>, "the base feature's own
  teardown", detaches the instance and marks it disposed.
\<close>

definition super_attach :: "WebXRLightEstimation \<Rightarrow> bool \<times> WebXRLightEstimation" where
  "super_attach this =
     (if isDisposed this then (False, this)
      else if attached this then (False, this)
      else (True, this\<lparr>attached := True\<rparr>))"

definition super_dispose :: "WebXRLightEstimation \<Rightarrow> WebXRLightEstimation" where
  "super_dispose this = this\<lparr>attached := False, isDisposed := True\<rparr>"

subsection \<open>attach\<close>

text \<open>
  The argument of \<open>requestLightProbe\<close>:
  \<^verbatim>\<open>options.reflectionFormatSRGBA8 ? "srgba8" : session.preferredReflectionFormat ?? "srgba8"\<close>.
  The conditional binds weaker than \<open>??\<close>; a property that was left out is falsy.
\<close>

definition reflectionFormat :: "WebXRLightEstimation \<Rightarrow> string" where
  "reflectionFormat this =
     (if reflectionFormatSRGBA8 (options this) = Some True then ''srgba8''
      else (case preferredReflectionFormat (xrSessionManager this) of
              Some preferred \<Rightarrow> preferred
            | None \<Rightarrow> ''srgba8''))"

definition attach :: "WebXRLightEstimation \<Rightarrow> bool \<times> WebXRLightEstimation" where
  "attach this =
     (case super_attach this of
        (ok, this1) \<Rightarrow>
          if \<not> ok then (False, this1)
          else (True, this1\<lparr>xrSessionManager :=
                  requestLightProbe (reflectionFormat this1) (xrSessionManager this1)\<rparr>))"

text \<open>
  The promise settles later, on the same event loop. When it resolves, the callback given
  to \<open>then\<close> runs: \<open>this._xrLightProbe = value\<close>. No callback is given for a rejection.
\<close>

definition probe_resolved :: "XRLightProbe \<Rightarrow> WebXRLightEstimation \<Rightarrow> WebXRLightEstimation" where
  "probe_resolved v this =
     (if unresolved (xrSessionManager this) = 0 then this
      else this\<lparr>xrLightProbe := Some v,
             xrSessionManager :=
               (xrSessionManager this)\<lparr>unresolved := unresolved (xrSessionManager this) - 1\<rparr>\<rparr>)"

definition probe_rejected :: "WebXRLightEstimation \<Rightarrow> WebXRLightEstimation" where
  "probe_rejected this =
     (if unresolved (xrSessionManager this) = 0 then this
      else this\<lparr>xrSessionManager :=
               (xrSessionManager this)\<lparr>unresolved := unresolved (xrSessionManager this) - 1\<rparr>\<rparr>)"

subsection \<open>The graphics binding and the cube map\<close>

text \<open>
  A method that can raise returns the error or its value, and beside it the instance as
  the method leaves it: what was written to a field before the exception stays written.
\<close>

type_synonym 'a result = "(error + 'a) \<times> WebXRLightEstimation"

text \<open>
  \<open>_getXRGLBinding\<close> builds the binding once. Calling \<open>getContext\<close> on a missing canvas,
  or building the binding from no context, raises a \<open>TypeError\<close>.
\<close>

definition getXRGLBinding :: "WebXRLightEstimation \<Rightarrow> XRWebGLBinding result" where
  "getXRGLBinding this =
     (case xrWebGLBinding this of
        Some b \<Rightarrow> (Inr b, this)
      | None \<Rightarrow>
          (case renderingCanvas (xrSessionManager this) of
             None \<Rightarrow> (Inl TypeError, this)
           | Some canvas \<Rightarrow>
               (let context = (case webgl2 canvas of Some c \<Rightarrow> Some c | None \<Rightarrow> webgl canvas)
                in case context of
                     None \<Rightarrow> (Inl TypeError, this)
                   | Some c \<Rightarrow>
                       (Inr (XRWebGLBinding c),
                        this\<lparr>xrWebGLBinding := Some (XRWebGLBinding c),
                             xrSessionManager :=
                               (xrSessionManager this)\<lparr>bindingsCreated :=
                                  Suc (bindingsCreated (xrSessionManager this))\<rparr>\<rparr>))))"

text \<open>
  \<open>_updateReflectionCubeMap\<close>, the listener for \<open>'reflectionchange'\<close>. The probe is read
  with a non-null assertion, which checks nothing when the code runs: the host refuses
  \<open>null\<close> with a \<open>TypeError\<close>.
\<close>

definition updateReflectionCubeMap :: "WebXRLightEstimation \<Rightarrow> unit result" where
  "updateReflectionCubeMap this =
     (case getXRGLBinding this of
        (Inl e, this1) \<Rightarrow> (Inl e, this1)
      | (Inr b, this1) \<Rightarrow>
          (case xrLightProbe this1 of
             None \<Rightarrow> (Inl TypeError, this1)
           | Some p \<Rightarrow>
               (case getReflectionCubeMap p (xrSessionManager this1) of
                  (t, m) \<Rightarrow> (Inr (), this1\<lparr>reflectionCubeMap := t, xrSessionManager := m\<rparr>))))"

text \<open>
  The condition of the second \<open>if\<close> of the accessor is the expression
  \<^verbatim>\<open>this._reflectionCubeMap = null\<close>: an assignment. It stores its right-hand side in the
  field, and its value is the value stored. An \<open>if\<close> takes its branch when the value
  of the condition is truthy; \<open>null\<close> is falsy, a texture object is truthy.
\<close>

definition assign_reflectionCubeMap ::
  "WebGLTexture option \<Rightarrow> WebXRLightEstimation \<Rightarrow> WebGLTexture option \<times> WebXRLightEstimation" where
  "assign_reflectionCubeMap v this = (v, this\<lparr>reflectionCubeMap := v\<rparr>)"

definition truthy :: "WebGLTexture option \<Rightarrow> bool" where
  "truthy v = (case v of None \<Rightarrow> False | Some t \<Rightarrow> True)"

definition lazy_guard :: "WebXRLightEstimation \<Rightarrow> bool \<times> WebXRLightEstimation" where
  "lazy_guard this =
     (case assign_reflectionCubeMap None this of (v, this1) \<Rightarrow> (truthy v, this1))"

definition get_reflectionCubeMap :: "WebXRLightEstimation \<Rightarrow> WebGLTexture option result" where
  "get_reflectionCubeMap this =
     (case xrLightProbe this of
        None \<Rightarrow> (Inr None, this)
      | Some p \<Rightarrow>
          (case lazy_guard this of
             (taken, this1) \<Rightarrow>
               if taken then
                 (case getXRGLBinding this1 of
                    (Inl e, this2) \<Rightarrow> (Inl e, this2)
                  | (Inr b, this2) \<Rightarrow>
                      (case getReflectionCubeMap p (xrSessionManager this2) of
                         (t, m) \<Rightarrow>
                           (let this3 = this2\<lparr>reflectionCubeMap := t,
                                              xrSessionManager := addEventListener p m\<rparr>
                            in (Inr (reflectionCubeMap this3), this3))))
               else (Inr (reflectionCubeMap this1), this1)))"

text \<open>
  Reading the accessor \<open>n\<close> times in a row, with nothing in between: the values read, in
  order, or the first error.
\<close>

fun accesses :: "nat \<Rightarrow> WebXRLightEstimation \<Rightarrow> WebGLTexture option list result" where
  "accesses 0 this = (Inr [], this)"
| "accesses (Suc n) this =
     (case get_reflectionCubeMap this of
        (Inl e, this1) \<Rightarrow> (Inl e, this1)
      | (Inr v, this1) \<Rightarrow>
          (case accesses n this1 of
             (Inl e, this2) \<Rightarrow> (Inl e, this2)
           | (Inr vs, this2) \<Rightarrow> (Inr (v # vs), this2)))"

subsection \<open>The other accessors, dispose and the frame tick\<close>

definition get_xrLightProbe :: "WebXRLightEstimation \<Rightarrow> XRLightProbe option" where
  "get_xrLightProbe this = xrLightProbe this"

definition get_xrLightingEstimate :: "WebXRLightEstimation \<Rightarrow> XRLightEstimate option" where
  "get_xrLightingEstimate this = xrLightEstimate this"

text \<open>
  No statement of \<open>dispose\<close> can raise: it compares two fields with \<open>null\<close>, calls
  \<open>removeEventListener\<close> on a probe that is not \<open>null\<close>, and stores \<open>null\<close>. So it is
  a total function on instances.
\<close>

definition dispose :: "WebXRLightEstimation \<Rightarrow> WebXRLightEstimation" where
  "dispose this =
     (let this1 = super_dispose this;
          this2 = (case xrLightProbe this1 of
                     None \<Rightarrow> this1
                   | Some p \<Rightarrow>
                       (case reflectionCubeMap this1 of
                          None \<Rightarrow> this1
                        | Some t \<Rightarrow>
                            this1\<lparr>xrSessionManager :=
                                    removeEventListener p (xrSessionManager this1)\<rparr>))
      in this2\<lparr>xrLightProbe := None\<rparr>)"

definition onXRFrame :: "XRFrame \<Rightarrow> WebXRLightEstimation \<Rightarrow> WebXRLightEstimation" where
  "onXRFrame xrFrame this =
     (case xrLightProbe this of
        None \<Rightarrow> this
      | Some p \<Rightarrow>
          this\<lparr>xrLightEstimate := xrFrame p,
               xrSessionManager :=
                 (xrSessionManager this)\<lparr>lightEstimateCalls :=
                    Suc (lightEstimateCalls (xrSessionManager this))\<rparr>\<rparr>)"

text \<open>The frame ticks of a list of frames, in order.\<close>

definition ticks :: "XRFrame list \<Rightarrow> WebXRLightEstimation \<Rightarrow> WebXRLightEstimation" where
  "ticks frames this = fold onXRFrame frames this"

subsection \<open>The life of an instance\<close>

text \<open>
  The accessor hands the host the method itself, \<^verbatim>\<open>this._updateReflectionCubeMap\<close>, not
  bound to the instance. The host calls a listener with the event target as its \<open>this\<close>,
  here the probe. A probe has no method \<open>_getXRGLBinding\<close>, so the body raises a
  \<open>TypeError\<close> at its first call, before anything is stored, and the instance is left as
  it was. Called on the instance itself, the method is \<open>updateReflectionCubeMap\<close> above.
\<close>

datatype receiver = Instance | EventTarget XRLightProbe

definition call_updateReflectionCubeMap ::
  "receiver \<Rightarrow> WebXRLightEstimation \<Rightarrow> unit result" where
  "call_updateReflectionCubeMap receiver this =
     (case receiver of
        Instance \<Rightarrow> updateReflectionCubeMap this
      | EventTarget p \<Rightarrow> (Inl TypeError, this))"

text \<open>
  Everything runs on one event loop, so the life of an instance is a sequence of events:
  calls of its methods by the application and the features manager, and callbacks from
  the host. The host calls a \<open>'reflectionchange'\<close> listener only on a probe where one is
  registered, and an exception that the listener raises goes to the host, not to the
  application.
\<close>

datatype event =
    Attach
  | ProbeResolved XRLightProbe
  | ProbeRejected
  | Frame XRFrame
  | ReadReflectionCubeMap
  | ReflectionChange XRLightProbe
  | Dispose

fun step :: "event \<Rightarrow> WebXRLightEstimation \<Rightarrow> WebXRLightEstimation" where
  "step Attach this = snd (attach this)"
| "step (ProbeResolved v) this = probe_resolved v this"
| "step ProbeRejected this = probe_rejected this"
| "step (Frame xrFrame) this = onXRFrame xrFrame this"
| "step ReadReflectionCubeMap this = snd (get_reflectionCubeMap this)"
| "step (ReflectionChange p) this =
     (if p \<in> listeners (xrSessionManager this)
      then snd (call_updateReflectionCubeMap (EventTarget p) this)
      else this)"
| "step Dispose this = dispose this"

definition run :: "event list \<Rightarrow> WebXRLightEstimation \<Rightarrow> WebXRLightEstimation" where
  "run events this = fold step events this"

fun is_ProbeResolved :: "event \<Rightarrow> bool" where
  "is_ProbeResolved (ProbeResolved v) = True"
| "is_ProbeResolved e = False"

subsection \<open>A sample session\<close>

text \<open>
  A session that prefers the format \<open>rgba16f\<close>, on a canvas that has a \<open>webgl\<close> context
  only, and an instance on it whose probe request has resolved.
\<close>

definition sample_session :: WebXRSessionManager where
  "sample_session =
     \<lparr>preferredReflectionFormat = Some ''rgba16f'', probeRequests = [], unresolved = 0,
      renderingCanvas = Some (HTMLCanvasElement None (Some (GLContext 1))),
      bindingsCreated = 0, cubeMapOf = (\<lambda>p. Some (WebGLTexture 7)), cubeMapCalls = 0,
      listeners = {}, addCalls = [], removeCalls = [], lightEstimateCalls = 0,
      warnings = []\<rparr>"

definition sample_options :: IWebXRLightEstimationOptions where
  "sample_options = \<lparr>reflectionFormatSRGBA8 = Some False\<rparr>"

definition sample_fresh :: WebXRLightEstimation where
  "sample_fresh = constructor sample_session sample_options"

definition sample_probed :: WebXRLightEstimation where
  "sample_probed = run [Attach, ProbeResolved (XRLightProbe 3)] sample_fresh"

definition sample_frame :: XRFrame where
  "sample_frame = (\<lambda>p. Some (XRLightEstimate 5))"

text \<open>
  The same instance with a cube map stored, as a call of \<open>_updateReflectionCubeMap\<close> on
  the instance itself would leave it. No event in the life of an instance makes that
  call; the state exercises the branches that read a stored cube map.
\<close>

definition sample_updated :: WebXRLightEstimation where
  "sample_updated = snd (call_updateReflectionCubeMap Instance sample_probed)"

text \<open>The sample instance disposed before it was ever attached.\<close>

definition sample_disposed :: WebXRLightEstimation where
  "sample_disposed = dispose sample_fresh"

section \<open>Properties\<close>

subsection \<open>Helper lemmas\<close>

lemma onXRFrame_no_probe: "xrLightProbe this = None \<Longrightarrow> onXRFrame f this = this"
  by (simp add: onXRFrame_def)

lemma ticks_no_probe: "xrLightProbe this = None \<Longrightarrow> ticks frames this = this"
  unfolding ticks_def by (induction frames) (simp_all add: onXRFrame_no_probe)

lemma get_reflectionCubeMap_no_probe:
  "xrLightProbe this = None \<Longrightarrow> get_reflectionCubeMap this = (Inr None, this)"
  by (simp add: get_reflectionCubeMap_def)

lemma lazy_guard_eq: "lazy_guard this = (False, this\<lparr>reflectionCubeMap := None\<rparr>)"
  by (simp add: lazy_guard_def assign_reflectionCubeMap_def truthy_def)

lemma get_reflectionCubeMap_probe:
  "xrLightProbe this = Some p \<Longrightarrow>
     get_reflectionCubeMap this = (Inr None, this\<lparr>reflectionCubeMap := None\<rparr>)"
  by (simp add: get_reflectionCubeMap_def lazy_guard_eq)

text \<open>
  As long as no probe request resolves, no event stores a probe handle or an estimate.
\<close>

lemma step_unprobed:
  assumes "\<not> is_ProbeResolved e" "xrLightProbe this = None" "xrLightEstimate this = None"
  shows "xrLightProbe (step e this) = None \<and> xrLightEstimate (step e this) = None"
proof (cases e)
  case Attach
  with assms show ?thesis
    by (simp add: attach_def super_attach_def)
next
  case (ProbeResolved v)
  with assms show ?thesis by simp
next
  case ProbeRejected
  with assms show ?thesis by (simp add: probe_rejected_def)
next
  case (Frame f)
  with assms show ?thesis by (simp add: onXRFrame_no_probe)
next
  case ReadReflectionCubeMap
  with assms show ?thesis by (simp add: get_reflectionCubeMap_no_probe)
next
  case (ReflectionChange p)
  with assms show ?thesis by (simp add: call_updateReflectionCubeMap_def)
next
  case Dispose
  with assms show ?thesis by (simp add: dispose_def super_dispose_def Let_def)
qed

lemma run_unprobed:
  "\<forall>e\<in>set events. \<not> is_ProbeResolved e \<Longrightarrow> xrLightProbe this = None \<Longrightarrow>
   xrLightEstimate this = None \<Longrightarrow>
   xrLightProbe (run events this) = None \<and> xrLightEstimate (run events this) = None"
  unfolding run_def
proof (induction events arbitrary: this)
  case Nil
  then show ?case by simp
next
  case (Cons e events)
  from Cons.prems have "xrLightProbe (step e this) = None \<and> xrLightEstimate (step e this) = None"
    by (intro step_unprobed) simp_all
  with Cons show ?case by simp
qed

lemma onXRFrame_probe_kept: "xrLightProbe (onXRFrame f this) = xrLightProbe this"
  by (simp add: onXRFrame_def split: option.splits)

lemma ticks_probe_kept: "xrLightProbe (ticks frames this) = xrLightProbe this"
  unfolding ticks_def by (induction frames arbitrary: this) (simp_all add: onXRFrame_probe_kept)

lemma ticks_snoc: "ticks (frames @ [f]) this = onXRFrame f (ticks frames this)"
  by (simp add: ticks_def)

lemma ticks_calls:
  "xrLightProbe this = Some p \<Longrightarrow>
   lightEstimateCalls (xrSessionManager (ticks frames this)) =
     lightEstimateCalls (xrSessionManager this) + length frames"
proof (induction frames rule: rev_induct)
  case Nil
  then show ?case by (simp add: ticks_def)
next
  case (snoc f frames)
  then have "xrLightProbe (ticks frames this) = Some p"
    by (simp add: ticks_probe_kept)
  with snoc show ?case
    by (simp add: ticks_snoc onXRFrame_def)
qed

lemma attach_succeeds_iff: "fst (attach this) \<longleftrightarrow> \<not> isDisposed this \<and> \<not> attached this"
  by (simp add: attach_def super_attach_def)

lemma sample_fresh_attach: "fst (attach sample_fresh)"
  by (simp add: attach_succeeds_iff sample_fresh_def constructor_def)

lemma sample_probed_eq:
  "sample_probed =
     \<lparr>xrLightProbe = Some (XRLightProbe 3), xrLightEstimate = None, xrWebGLBinding = None,
      reflectionCubeMap = None, options = sample_options,
      xrNativeFeatureName = ''light-estimation'', attached = True,
      isDisposed = False,
      xrSessionManager =
        sample_session
          \<lparr>probeRequests := [''rgba16f''],
           warnings := [''light-estimation is an experimental and unstable feature.'']\<rparr>\<rparr>"
  by (simp add: sample_probed_def sample_fresh_def sample_session_def sample_options_def run_def
      attach_def super_attach_def constructor_def probe_resolved_def requestLightProbe_def
      reflectionFormat_def)

lemma sample_probed_probe: "xrLightProbe sample_probed = Some (XRLightProbe 3)"
  by (simp add: sample_probed_eq)

lemma dispose_host:
  "cubeMapCalls (xrSessionManager (dispose this)) = cubeMapCalls (xrSessionManager this) \<and>
   unresolved (xrSessionManager (dispose this)) = unresolved (xrSessionManager this) \<and>
   probeRequests (xrSessionManager (dispose this)) = probeRequests (xrSessionManager this)"
  by (simp add: dispose_def super_dispose_def removeEventListener_def Let_def
      split: option.splits)

lemma dispose_isDisposed: "isDisposed (dispose this) \<and> \<not> attached (dispose this)"
  by (simp add: dispose_def super_dispose_def Let_def split: option.splits)

text \<open>
  No event registers a listener or stores a cube map, as long as none is registered.
\<close>

lemma step_no_listener:
  assumes "listeners (xrSessionManager this) = {}" "reflectionCubeMap this = None"
  shows "listeners (xrSessionManager (step e this)) = {} \<and> reflectionCubeMap (step e this) = None"
proof (cases e)
  case Attach
  with assms show ?thesis
    by (simp add: attach_def super_attach_def requestLightProbe_def)
next
  case (ProbeResolved v)
  with assms show ?thesis by (simp add: probe_resolved_def)
next
  case ProbeRejected
  with assms show ?thesis by (simp add: probe_rejected_def)
next
  case (Frame f)
  with assms show ?thesis by (simp add: onXRFrame_def split: option.splits)
next
  case ReadReflectionCubeMap
  with assms show ?thesis
    by (cases "xrLightProbe this")
       (simp_all add: get_reflectionCubeMap_no_probe get_reflectionCubeMap_probe)
next
  case (ReflectionChange p)
  with assms show ?thesis by simp
next
  case Dispose
  with assms show ?thesis
    by (simp add: dispose_def super_dispose_def Let_def split: option.splits)
qed

lemma run_no_listener:
  "listeners (xrSessionManager this) = {} \<Longrightarrow> reflectionCubeMap this = None \<Longrightarrow>
   listeners (xrSessionManager (run events this)) = {} \<and> reflectionCubeMap (run events this) = None"
  unfolding run_def
proof (induction events arbitrary: this)
  case Nil
  then show ?case by simp
next
  case (Cons e events)
  from Cons.prems have "listeners (xrSessionManager (step e this)) = {} \<and>
      reflectionCubeMap (step e this) = None"
    by (intro step_no_listener) simp_all
  with Cons.IH show ?case by simp
qed

lemma dispose_idem: "dispose (dispose this) = dispose this"
  by (simp add: dispose_def super_dispose_def Let_def split: option.splits)

lemma sample_updated_eq:
  "sample_updated =
     sample_probed
       \<lparr>xrWebGLBinding := Some (XRWebGLBinding (GLContext 1)),
        reflectionCubeMap := Some (WebGLTexture 7),
        xrSessionManager :=
          (xrSessionManager sample_probed)\<lparr>bindingsCreated := 1, cubeMapCalls := 1\<rparr>\<rparr>"
  by (simp add: sample_updated_def sample_probed_eq call_updateReflectionCubeMap_def
      updateReflectionCubeMap_def
      getXRGLBinding_def getReflectionCubeMap_def sample_session_def)

subsection \<open>attach\<close>

text \<open>
  C1. When \<open>attach\<close> issues the probe request, that is, when it returns \<open>true\<close>, the
  reflection format is chosen so: if \<open>options.reflectionFormatSRGBA8\<close> is true the
  request uses \<open>srgba8\<close>, whatever the session prefers; if it is false and the session
  reports a preferred format, the request uses that format; if it is false and the
  session reports none, the request uses \<open>srgba8\<close>.
\<close>

theorem attach_reflection_format:
  assumes "fst (attach this)"
  shows "(reflectionFormatSRGBA8 (options this) = Some True \<longrightarrow>
            probeRequests (xrSessionManager (snd (attach this))) =
              probeRequests (xrSessionManager this) @ [''srgba8'']) \<and>
         (reflectionFormatSRGBA8 (options this) = Some False \<and>
          preferredReflectionFormat (xrSessionManager this) = Some other \<longrightarrow>
            probeRequests (xrSessionManager (snd (attach this))) =
              probeRequests (xrSessionManager this) @ [other]) \<and>
         (reflectionFormatSRGBA8 (options this) = Some False \<and>
          preferredReflectionFormat (xrSessionManager this) = None \<longrightarrow>
            probeRequests (xrSessionManager (snd (attach this))) =
              probeRequests (xrSessionManager this) @ [''srgba8''])"
proof -
  from assms have "\<not> isDisposed this" "\<not> attached this"
    by (simp_all add: attach_succeeds_iff)
  then show ?thesis
    by (simp add: attach_def super_attach_def requestLightProbe_def reflectionFormat_def)
qed

theorem attach_reflection_format_witness:
  "fst (attach (constructor sample_session \<lparr>reflectionFormatSRGBA8 = Some True\<rparr>)) \<and>
   probeRequests (xrSessionManager (snd (attach
       (constructor sample_session \<lparr>reflectionFormatSRGBA8 = Some True\<rparr>)))) = [''srgba8''] \<and>
   fst (attach (constructor sample_session \<lparr>reflectionFormatSRGBA8 = Some False\<rparr>)) \<and>
   probeRequests (xrSessionManager (snd (attach
       (constructor sample_session \<lparr>reflectionFormatSRGBA8 = Some False\<rparr>)))) = [''rgba16f''] \<and>
   fst (attach (constructor (sample_session\<lparr>preferredReflectionFormat := None\<rparr>)
                  \<lparr>reflectionFormatSRGBA8 = Some False\<rparr>)) \<and>
   probeRequests (xrSessionManager (snd (attach
       (constructor (sample_session\<lparr>preferredReflectionFormat := None\<rparr>)
          \<lparr>reflectionFormatSRGBA8 = Some False\<rparr>)))) = [''srgba8'']"
proof -
  have a: "fst (attach (constructor m opts))" for m opts
    by (simp add: attach_succeeds_iff constructor_def)
  have r1: "probeRequests (xrSessionManager (snd (attach
       (constructor sample_session \<lparr>reflectionFormatSRGBA8 = Some True\<rparr>)))) = [''srgba8'']"
    using attach_reflection_format
            [OF a, of sample_session "\<lparr>reflectionFormatSRGBA8 = Some True\<rparr>"]
    by (simp add: constructor_def sample_session_def)
  have r2: "probeRequests (xrSessionManager (snd (attach
       (constructor sample_session \<lparr>reflectionFormatSRGBA8 = Some False\<rparr>)))) = [''rgba16f'']"
    using attach_reflection_format
            [OF a, of sample_session "\<lparr>reflectionFormatSRGBA8 = Some False\<rparr>" "''rgba16f''"]
    by (simp add: constructor_def sample_session_def)
  have r3: "probeRequests (xrSessionManager (snd (attach
       (constructor (sample_session\<lparr>preferredReflectionFormat := None\<rparr>)
          \<lparr>reflectionFormatSRGBA8 = Some False\<rparr>)))) = [''srgba8'']"
    using attach_reflection_format
            [OF a, of "sample_session\<lparr>preferredReflectionFormat := None\<rparr>"
               "\<lparr>reflectionFormatSRGBA8 = Some False\<rparr>"]
    by (simp add: constructor_def sample_session_def)
  from a r1 r2 r3 show ?thesis by blast
qed

text \<open>
  C2. If the base attach fails, whatever its reason (the instance is attached already, or
  it has been disposed), \<open>attach\<close> returns \<open>false\<close> and issues no probe request: it
  leaves the instance and the session as they were. If the base attach succeeds,
  \<open>attach\<close> returns \<open>true\<close> at once: one request has been issued and is still
  unresolved, and the call has stored no probe handle.
\<close>

theorem attach_base_precondition:
  "(fst (super_attach this) = False \<longrightarrow>
      attach this = (False, this) \<and>
      probeRequests (xrSessionManager (snd (attach this))) =
        probeRequests (xrSessionManager this) \<and>
      unresolved (xrSessionManager (snd (attach this))) = unresolved (xrSessionManager this)) \<and>
   (fst (super_attach this) = True \<longrightarrow>
      fst (attach this) = True \<and>
      probeRequests (xrSessionManager (snd (attach this))) =
        probeRequests (xrSessionManager this) @ [reflectionFormat this] \<and>
      unresolved (xrSessionManager (snd (attach this))) =
        Suc (unresolved (xrSessionManager this)) \<and>
      xrLightProbe (snd (attach this)) = xrLightProbe this) \<and>
   (attached this \<or> isDisposed this \<longrightarrow> fst (super_attach this) = False)"
  by (simp add: attach_def super_attach_def requestLightProbe_def reflectionFormat_def)

theorem attach_base_precondition_witness:
  "fst (super_attach sample_fresh) = True \<and> fst (attach sample_fresh) = True \<and>
   unresolved (xrSessionManager (snd (attach sample_fresh))) = 1 \<and>
   xrLightProbe (snd (attach sample_fresh)) = None \<and>
   attached sample_probed \<and> fst (super_attach sample_probed) = False \<and>
   attach sample_probed = (False, sample_probed) \<and>
   isDisposed sample_disposed \<and> fst (super_attach sample_disposed) = False \<and>
   attach sample_disposed = (False, sample_disposed) \<and>
   probeRequests (xrSessionManager (snd (attach sample_disposed))) = []"
proof -
  have fresh: "fst (super_attach sample_fresh) = True"
    by (simp add: super_attach_def sample_fresh_def constructor_def)
  have probed: "attached sample_probed"
    by (simp add: sample_probed_eq)
  have disposed: "isDisposed sample_disposed"
    by (simp add: sample_disposed_def dispose_isDisposed)
  have requests: "probeRequests (xrSessionManager sample_disposed) = []"
    by (simp add: sample_disposed_def dispose_host sample_fresh_def sample_session_def
        constructor_def)
  have start: "unresolved (xrSessionManager sample_fresh) = 0" "xrLightProbe sample_fresh = None"
    by (simp_all add: sample_fresh_def sample_session_def constructor_def)
  from attach_base_precondition [of sample_fresh] fresh start
  have r1: "fst (attach sample_fresh) = True \<and>
      unresolved (xrSessionManager (snd (attach sample_fresh))) = 1 \<and>
      xrLightProbe (snd (attach sample_fresh)) = None"
    by simp
  from attach_base_precondition [of sample_probed] probed
  have r2: "fst (super_attach sample_probed) = False \<and>
      attach sample_probed = (False, sample_probed)"
    by simp
  from attach_base_precondition [of sample_disposed] disposed requests
  have r3: "fst (super_attach sample_disposed) = False \<and>
      attach sample_disposed = (False, sample_disposed) \<and>
      probeRequests (xrSessionManager (snd (attach sample_disposed))) = []"
    by simp
  from fresh probed disposed r1 r2 r3 show ?thesis by blast
qed

subsection \<open>The frame tick\<close>

text \<open>
  C3. Before a probe handle has been stored, that is, after any events since the
  construction among which no probe request resolved (frame ticks among them), a frame
  tick is a no-op, so is any sequence of frame ticks, and the accessor
  \<open>xrLightingEstimate\<close> returns \<open>null\<close>.
\<close>

theorem ticks_before_probe_stored:
  assumes "\<forall>e\<in>set events. \<not> is_ProbeResolved e"
  shows "onXRFrame xrFrame (run events (constructor m opts)) = run events (constructor m opts) \<and>
         ticks frames (run events (constructor m opts)) = run events (constructor m opts) \<and>
         get_xrLightingEstimate (ticks frames (run events (constructor m opts))) = None"
proof -
  have "xrLightProbe (constructor m opts) = None" "xrLightEstimate (constructor m opts) = None"
    by (simp_all add: constructor_def)
  with assms have "xrLightProbe (run events (constructor m opts)) = None \<and>
      xrLightEstimate (run events (constructor m opts)) = None"
    by (rule run_unprobed)
  then show ?thesis
    by (simp add: onXRFrame_no_probe ticks_no_probe get_xrLightingEstimate_def)
qed

theorem ticks_before_probe_stored_witness:
  "\<not> is_ProbeResolved Attach \<and> \<not> is_ProbeResolved (Frame sample_frame) \<and>
   \<not> is_ProbeResolved ProbeRejected \<and>
   ticks [sample_frame, sample_frame]
     (run [Attach, Frame sample_frame, ProbeRejected]
        (constructor sample_session sample_options)) =
     run [Attach, Frame sample_frame, ProbeRejected] (constructor sample_session sample_options) \<and>
   get_xrLightingEstimate
     (ticks [sample_frame, sample_frame]
        (run [Attach, Frame sample_frame, ProbeRejected]
           (constructor sample_session sample_options))) = None"
proof -
  have h: "\<forall>e\<in>set [Attach, Frame sample_frame, ProbeRejected]. \<not> is_ProbeResolved e"
    by simp
  have "\<not> is_ProbeResolved Attach" "\<not> is_ProbeResolved (Frame sample_frame)"
       "\<not> is_ProbeResolved ProbeRejected"
    by simp_all
  with ticks_before_probe_stored [OF h, of sample_frame sample_session sample_options
      "[sample_frame, sample_frame]"]
  show ?thesis by blast
qed

text \<open>
  C4. Once a probe handle \<open>p\<close> is stored, a frame tick asks the frame for the estimate of
  \<open>p\<close> exactly once and stores the answer as the most recent estimate. What was stored
  before has no influence on the instance the tick leaves behind; after a sequence of
  ticks the stored estimate is the one of the last frame, and the frames were asked once
  each.
\<close>

theorem tick_overwrites_estimate:
  assumes "xrLightProbe this = Some p"
  shows "get_xrLightingEstimate (onXRFrame xrFrame this) = xrFrame p \<and>
         lightEstimateCalls (xrSessionManager (onXRFrame xrFrame this)) =
           Suc (lightEstimateCalls (xrSessionManager this)) \<and>
         onXRFrame xrFrame (this\<lparr>xrLightEstimate := previous\<rparr>) = onXRFrame xrFrame this \<and>
         get_xrLightingEstimate (ticks (frames @ [xrFrame]) this) = xrFrame p \<and>
         lightEstimateCalls (xrSessionManager (ticks frames this)) =
           lightEstimateCalls (xrSessionManager this) + length frames"
proof -
  have "xrLightProbe (ticks frames this) = Some p"
    using assms by (simp add: ticks_probe_kept)
  then have "get_xrLightingEstimate (ticks (frames @ [xrFrame]) this) = xrFrame p"
    by (simp add: ticks_snoc onXRFrame_def get_xrLightingEstimate_def)
  moreover have "lightEstimateCalls (xrSessionManager (ticks frames this)) =
      lightEstimateCalls (xrSessionManager this) + length frames"
    using assms by (rule ticks_calls)
  ultimately show ?thesis
    using assms by (simp add: onXRFrame_def get_xrLightingEstimate_def)
qed

theorem tick_overwrites_estimate_witness:
  "xrLightProbe sample_probed = Some (XRLightProbe 3) \<and>
   get_xrLightingEstimate (onXRFrame sample_frame sample_probed) = Some (XRLightEstimate 5) \<and>
   get_xrLightingEstimate
     (ticks ([(\<lambda>p. None), (\<lambda>p. Some (XRLightEstimate 9))] @ [sample_frame]) sample_probed) =
     Some (XRLightEstimate 5)"
  using tick_overwrites_estimate [OF sample_probed_probe, of sample_frame None
      "[(\<lambda>p. None), (\<lambda>p. Some (XRLightEstimate 9))]"]
  by (simp add: sample_probed_probe sample_frame_def)

subsection \<open>The accessor for the reflection cube map\<close>

text \<open>
  C5. The accessor is to cache: with a probe handle present, repeated reads return the
  one cached cube map, generated at most once between two change notifications. The
  source does not do so. On the sample instance, whose probe request has resolved and for
  whose probe the host would answer texture 7, two reads in a row return \<open>null\<close> both
  times and leave the instance as it was: no cube map has been generated, none is
  stored, no listener is registered. On the instance where texture 7 is stored, a read
  does not return the texture: it returns \<open>null\<close> and wipes the field.
\<close>

theorem reflectionCubeMap_never_cached:
  "xrLightProbe sample_probed = Some (XRLightProbe 3) \<and>
   cubeMapOf (xrSessionManager sample_probed) (XRLightProbe 3) = Some (WebGLTexture 7) \<and>
   accesses 2 sample_probed = (Inr [None, None], sample_probed) \<and>
   reflectionCubeMap sample_probed = None \<and>
   cubeMapCalls (xrSessionManager sample_probed) = 0 \<and>
   addCalls (xrSessionManager sample_probed) = [] \<and>
   xrLightProbe sample_updated = Some (XRLightProbe 3) \<and>
   reflectionCubeMap sample_updated = Some (WebGLTexture 7) \<and>
   get_reflectionCubeMap sample_updated =
     (Inr None, sample_updated\<lparr>reflectionCubeMap := None\<rparr>)"
proof -
  have probed: "get_reflectionCubeMap sample_probed = (Inr None, sample_probed)"
    using get_reflectionCubeMap_probe [OF sample_probed_probe]
    by (simp add: sample_probed_eq)
  then have "accesses 2 sample_probed = (Inr [None, None], sample_probed)"
    by (simp add: numeral_2_eq_2)
  moreover have "xrLightProbe sample_updated = Some (XRLightProbe 3)"
    by (simp add: sample_updated_eq sample_probed_eq)
  moreover from this have "get_reflectionCubeMap sample_updated =
      (Inr None, sample_updated\<lparr>reflectionCubeMap := None\<rparr>)"
    by (rule get_reflectionCubeMap_probe)
  ultimately show ?thesis
    by (simp add: sample_updated_eq sample_probed_eq sample_session_def)
qed

text \<open>
  C6 as the spec states it: the guard of the lazy initialisation is always true when a
  probe handle is present, so that every read generates a cube map and registers the
  listener again. On the sample instance, whose probe request has resolved, the guard is
  false, and a read generates no cube map and registers no listener.
\<close>

theorem lazy_guard_taken_counterexample:
  "xrLightProbe sample_probed = Some (XRLightProbe 3) \<and>
   fst (lazy_guard sample_probed) = False \<and>
   get_reflectionCubeMap sample_probed = (Inr None, sample_probed) \<and>
   cubeMapCalls (xrSessionManager (snd (get_reflectionCubeMap sample_probed))) = 0 \<and>
   addCalls (xrSessionManager (snd (get_reflectionCubeMap sample_probed))) = [] \<and>
   listeners (xrSessionManager (snd (get_reflectionCubeMap sample_probed))) = {}"
  by (simp add: sample_probed_eq get_reflectionCubeMap_def lazy_guard_def
      assign_reflectionCubeMap_def truthy_def sample_session_def)

text \<open>
  C6, amended. The guard is an assignment of \<open>null\<close>, whose value is \<open>null\<close>: with a
  probe handle present it is false on every read. A read therefore stores \<open>null\<close> in
  the cube map field and returns \<open>null\<close>; it obtains no graphics binding, generates no
  cube map and registers no listener (the session manager is left as it was).
\<close>

theorem lazy_guard_never_taken:
  assumes "xrLightProbe this = Some p"
  shows "fst (lazy_guard this) = False \<and>
         get_reflectionCubeMap this = (Inr None, this\<lparr>reflectionCubeMap := None\<rparr>) \<and>
         xrSessionManager (snd (get_reflectionCubeMap this)) = xrSessionManager this \<and>
         xrWebGLBinding (snd (get_reflectionCubeMap this)) = xrWebGLBinding this"
  using assms
  by (simp add: get_reflectionCubeMap_def lazy_guard_def assign_reflectionCubeMap_def truthy_def)

theorem lazy_guard_never_taken_witness:
  "xrLightProbe (sample_probed\<lparr>reflectionCubeMap := Some (WebGLTexture 7)\<rparr>) =
     Some (XRLightProbe 3) \<and>
   fst (lazy_guard (sample_probed\<lparr>reflectionCubeMap := Some (WebGLTexture 7)\<rparr>)) = False \<and>
   get_reflectionCubeMap (sample_probed\<lparr>reflectionCubeMap := Some (WebGLTexture 7)\<rparr>) =
     (Inr None, sample_probed)"
  using lazy_guard_never_taken
          [of "sample_probed\<lparr>reflectionCubeMap := Some (WebGLTexture 7)\<rparr>" "XRLightProbe 3"]
  by (simp add: sample_probed_eq)

text \<open>
  C9. With no probe handle stored (the probe request has not resolved yet, or it was
  rejected), \<open>reflectionCubeMap\<close> returns \<open>null\<close> and leaves the instance and the
  session manager exactly as they were: no graphics binding is obtained, no cube map is
  generated.
\<close>

theorem cube_map_unavailable_without_probe:
  assumes "xrLightProbe this = None"
  shows "get_reflectionCubeMap this = (Inr None, this) \<and>
         xrLightProbe (probe_rejected this) = None \<and>
         get_reflectionCubeMap (probe_rejected this) = (Inr None, probe_rejected this)"
proof -
  from assms have "xrLightProbe (probe_rejected this) = None"
    by (simp add: probe_rejected_def)
  with assms show ?thesis
    by (simp add: get_reflectionCubeMap_no_probe)
qed

theorem cube_map_unavailable_without_probe_witness:
  "xrLightProbe (snd (attach sample_fresh)) = None \<and>
   get_reflectionCubeMap (snd (attach sample_fresh)) = (Inr None, snd (attach sample_fresh)) \<and>
   get_reflectionCubeMap (probe_rejected (snd (attach sample_fresh))) =
     (Inr None, probe_rejected (snd (attach sample_fresh)))"
proof -
  have h: "xrLightProbe (snd (attach sample_fresh)) = None"
    by (simp add: attach_def super_attach_def sample_fresh_def constructor_def)
  from cube_map_unavailable_without_probe [OF h] h show ?thesis
    by blast
qed

subsection \<open>dispose\<close>

text \<open>
  C7. \<open>dispose\<close> is a total function: it does not raise, the first time or the second.
  Each call leaves no probe handle stored. The second call changes nothing any more, so
  it does not call \<open>removeEventListener\<close>; two calls in a row make at most one such call.
  When a probe handle and a cube map are stored, which is how the class records that its
  listener is registered, the call removes the listener from the probe. After any events
  since the construction, on a session where no listener of the class was registered
  beforehand, no listener is registered once \<open>dispose\<close> has run.
\<close>

theorem dispose_twice:
  "xrLightProbe (dispose this) = None \<and>
   dispose (dispose this) = dispose this \<and>
   removeCalls (xrSessionManager (dispose (dispose this))) =
     removeCalls (xrSessionManager (dispose this)) \<and>
   length (removeCalls (xrSessionManager (dispose (dispose this)))) \<le>
     Suc (length (removeCalls (xrSessionManager this))) \<and>
   (xrLightProbe this = Some p \<and> reflectionCubeMap this \<noteq> None \<longrightarrow>
      removeCalls (xrSessionManager (dispose this)) = removeCalls (xrSessionManager this) @ [p] \<and>
      p \<notin> listeners (xrSessionManager (dispose this))) \<and>
   (listeners m = {} \<longrightarrow>
      listeners (xrSessionManager (dispose (run events (constructor m opts)))) = {})"
proof -
  have a: "xrLightProbe (dispose this) = None"
    by (simp add: dispose_def Let_def)
  have b: "length (removeCalls (xrSessionManager (dispose this))) \<le>
      Suc (length (removeCalls (xrSessionManager this)))"
    by (simp add: dispose_def super_dispose_def removeEventListener_def Let_def
        split: option.splits)
  have c: "xrLightProbe this = Some p \<and> reflectionCubeMap this \<noteq> None \<longrightarrow>
      removeCalls (xrSessionManager (dispose this)) = removeCalls (xrSessionManager this) @ [p] \<and>
      p \<notin> listeners (xrSessionManager (dispose this))"
    by (auto simp: dispose_def super_dispose_def removeEventListener_def Let_def)
  have d: "listeners (xrSessionManager (dispose (run events (constructor m opts)))) = {}"
    if "listeners m = {}"
  proof -
    have "listeners (xrSessionManager (constructor m opts)) = {}"
         "reflectionCubeMap (constructor m opts) = None"
      using that by (simp_all add: constructor_def)
    then have "listeners (xrSessionManager (run events (constructor m opts))) = {} \<and>
        reflectionCubeMap (run events (constructor m opts)) = None"
      by (rule run_no_listener)
    then show ?thesis
      by (simp add: dispose_def super_dispose_def Let_def split: option.splits)
  qed
  from a b c d show ?thesis
    by (simp add: dispose_idem)
qed

theorem dispose_twice_witness:
  "xrLightProbe sample_updated = Some (XRLightProbe 3) \<and>
   reflectionCubeMap sample_updated \<noteq> None \<and>
   listeners sample_session = {} \<and>
   removeCalls (xrSessionManager (dispose sample_updated)) = [XRLightProbe 3] \<and>
   removeCalls (xrSessionManager (dispose (dispose sample_updated))) = [XRLightProbe 3] \<and>
   xrLightProbe (dispose sample_updated) = None \<and>
   listeners (xrSessionManager (dispose
      (run [Attach, ProbeResolved (XRLightProbe 3), ReadReflectionCubeMap, Dispose]
         (constructor sample_session sample_options)))) = {}"
  using dispose_twice [of sample_updated "XRLightProbe 3" sample_session
      "[Attach, ProbeResolved (XRLightProbe 3), ReadReflectionCubeMap, Dispose]" sample_options]
  by (simp add: sample_updated_eq sample_probed_eq sample_session_def)

text \<open>
  C8. When \<open>dispose\<close> runs after a successful \<open>attach\<close>, while the probe request is
  still unresolved, the probe handle is \<open>null\<close> after it; when the request resolves
  afterwards, the callback stores the handle in the disposed instance all the same, and
  the probe handle is not \<open>null\<close> any more.
\<close>

theorem late_probe_after_dispose:
  assumes "fst (attach this)"
  shows "get_xrLightProbe (dispose (snd (attach this))) = None \<and>
         get_xrLightProbe (probe_resolved v (dispose (snd (attach this)))) = Some v \<and>
         get_xrLightProbe (run [Attach, Dispose, ProbeResolved v] this) = Some v"
proof -
  from assms have "\<not> isDisposed this" "\<not> attached this"
    by (simp_all add: attach_succeeds_iff)
  then have "unresolved (xrSessionManager (snd (attach this))) =
      Suc (unresolved (xrSessionManager this))"
    by (simp add: attach_def super_attach_def requestLightProbe_def)
  then have pending: "unresolved (xrSessionManager (dispose (snd (attach this)))) \<noteq> 0"
    by (simp add: dispose_host)
  have cleared: "xrLightProbe (dispose (snd (attach this))) = None"
    by (simp add: dispose_def Let_def)
  from pending have "xrLightProbe (probe_resolved v (dispose (snd (attach this)))) = Some v"
    by (simp add: probe_resolved_def)
  with cleared show ?thesis
    by (simp add: run_def get_xrLightProbe_def)
qed

theorem late_probe_after_dispose_witness:
  "fst (attach sample_fresh) \<and>
   get_xrLightProbe (dispose (snd (attach sample_fresh))) = None \<and>
   get_xrLightProbe (run [Attach, Dispose, ProbeResolved (XRLightProbe 4)] sample_fresh) =
     Some (XRLightProbe 4)"
  using late_probe_after_dispose [OF sample_fresh_attach, of "XRLightProbe 4"]
    sample_fresh_attach
  by blast

text \<open>
  C10. \<open>dispose\<close> clears the probe handle and leaves the most recent estimate, the
  graphics binding and the cube map as they were: \<open>xrLightingEstimate\<close> returns after
  \<open>dispose\<close> what it returned before, so an estimate stored before is still returned.
\<close>

theorem dispose_keeps_estimate:
  "get_xrLightingEstimate (dispose this) = get_xrLightingEstimate this \<and>
   (xrLightEstimate this = Some e \<longrightarrow> get_xrLightingEstimate (dispose this) = Some e) \<and>
   get_xrLightProbe (dispose this) = None \<and>
   xrWebGLBinding (dispose this) = xrWebGLBinding this \<and>
   reflectionCubeMap (dispose this) = reflectionCubeMap this"
  by (simp add: dispose_def super_dispose_def get_xrLightingEstimate_def get_xrLightProbe_def
      Let_def split: option.splits)

theorem dispose_keeps_estimate_witness:
  "xrLightEstimate (onXRFrame sample_frame sample_probed) = Some (XRLightEstimate 5) \<and>
   get_xrLightingEstimate (dispose (onXRFrame sample_frame sample_probed)) =
     Some (XRLightEstimate 5) \<and>
   get_xrLightProbe (dispose (onXRFrame sample_frame sample_probed)) = None"
proof -
  have h: "xrLightEstimate (onXRFrame sample_frame sample_probed) = Some (XRLightEstimate 5)"
    by (simp add: onXRFrame_def sample_probed_probe sample_frame_def)
  from dispose_keeps_estimate [of "onXRFrame sample_frame sample_probed" "XRLightEstimate 5"] h
  show ?thesis by blast
qed

end
